theory Spec2Isabelle
  imports Complex_Main
begin

section \<open>The Haversine distance of Chapter 14.1\<close>

text \<open>
  The notebook \<^verbatim>\<open>Chapter 14/Chapter 14.1.ipynb\<close> defines one function with logic of its own:
  \<^verbatim>\<open>
  EARTH_RADIUS = 6371.009

  def haversine(point1, point2):
      lon1, lat1 = [np.radians(x) for x in point1]
      lon2, lat2 = [np.radians(x) for x in point2]
      dlon = lon2 - lon1
      dlat = lat2 - lat1
      a = np.sin(dlat / 2) ** 2 + np.cos(lat1) * np.cos(lat2) * np.sin(dlon / 2) ** 2
      return 2 * EARTH_RADIUS * np.arcsin(np.sqrt(a))
  \<close>
  Numbers are modelled as mathematical reals: \<^verbatim>\<open>np.sin\<close>, \<^verbatim>\<open>np.cos\<close>, \<^verbatim>\<open>np.sqrt\<close>,
  \<^verbatim>\<open>np.arcsin\<close> and the arithmetic operators are the exact functions, so every statement
  below is about the formula the code evaluates, not about the rounding of binary64.
  What the code can do apart from returning a number is kept as a value of \<open>error\<close>.

  Three properties are decided by that rounding and are therefore not stated here. The
  \<open>a\<close> that binary64 computes can leave \<open>[0, 1]\<close> by one unit in the last place, although
  the exact \<open>a\<close> never does (\<open>hav_a_nonneg\<close>, \<open>hav_a_le_one\<close>). When it falls below 0 the
  result is not a number, so it is not at least 0. And \<^verbatim>\<open>np.radians\<close> rounds each
  conversion on its own, so that adding 360 degrees to a longitude moves the computed
  distance in its last digits.
\<close>

subsection \<open>Outcomes\<close>

text \<open>
  \<open>TypeError\<close>: a call with the wrong number of arguments, or a point that is not iterable.
  \<open>ValueError\<close>: a point that does not unpack into exactly two numbers.
  \<open>InvalidValue\<close>: the argument of \<^verbatim>\<open>np.sqrt\<close> or \<^verbatim>\<open>np.arcsin\<close> is outside the function's
  domain (numpy reports \<^verbatim>\<open>invalid value encountered\<close> and the result is not a number).
\<close>

datatype error = TypeError | ValueError | InvalidValue

text \<open>A Python argument: a number, or a sequence of numbers (tuple, list).\<close>

datatype pyval = Num real | Seq "real list"

subsection \<open>The numpy primitives\<close>

definition radians :: "real \<Rightarrow> real" where
  "radians x = x * (pi / 180)"

definition np_sqrt :: "real \<Rightarrow> error + real" where
  "np_sqrt x = (if x < 0 then Inl InvalidValue else Inr (sqrt x))"

definition np_arcsin :: "real \<Rightarrow> error + real" where
  "np_arcsin x = (if x < - 1 \<or> 1 < x then Inl InvalidValue else Inr (arcsin x))"

subsection \<open>The function\<close>

definition EARTH_RADIUS :: real where
  "EARTH_RADIUS = 6371.009"

text \<open>The target list \<^verbatim>\<open>lon, lat = [...]\<close>: exactly two elements, or \<^verbatim>\<open>ValueError\<close>.\<close>

fun unpack2 :: "real list \<Rightarrow> error + real \<times> real" where
  "unpack2 [lon, lat] = Inr (lon, lat)"
| "unpack2 _ = Inl ValueError"

text \<open>The local \<^verbatim>\<open>a\<close> of the source, from the four coordinates in radians.\<close>

definition hav_a :: "real \<Rightarrow> real \<Rightarrow> real \<Rightarrow> real \<Rightarrow> real" where
  "hav_a lon1 lat1 lon2 lat2 =
     (let dlon = lon2 - lon1;
          dlat = lat2 - lat1
      in (sin (dlat / 2)) ^ 2 + cos lat1 * cos lat2 * (sin (dlon / 2)) ^ 2)"

text \<open>
  \<^verbatim>\<open>for x in point\<close>: a sequence yields its elements, a number is not iterable.
\<close>

fun iterate :: "pyval \<Rightarrow> error + real list" where
  "iterate (Seq xs) = Inr xs"
| "iterate (Num x) = Inl TypeError"

text \<open>
  The body, statement by statement: \<open>point1\<close> is iterated, converted and unpacked before
  \<open>point2\<close> is looked at.
\<close>

definition haversine :: "pyval \<Rightarrow> pyval \<Rightarrow> error + real" where
  "haversine point1 point2 =
     (case iterate point1 of
        Inl e \<Rightarrow> Inl e
      | Inr xs1 \<Rightarrow>
     (case unpack2 (map radians xs1) of
        Inl e \<Rightarrow> Inl e
      | Inr (lon1, lat1) \<Rightarrow>
     (case iterate point2 of
        Inl e \<Rightarrow> Inl e
      | Inr xs2 \<Rightarrow>
     (case unpack2 (map radians xs2) of
        Inl e \<Rightarrow> Inl e
      | Inr (lon2, lat2) \<Rightarrow>
     (case np_sqrt (hav_a lon1 lat1 lon2 lat2) of
        Inl e \<Rightarrow> Inl e
      | Inr s \<Rightarrow>
     (case np_arcsin s of
        Inl e \<Rightarrow> Inl e
      | Inr t \<Rightarrow> Inr (2 * EARTH_RADIUS * t)))))))"

text \<open>
  A call \<^verbatim>\<open>haversine(*args)\<close> with positional arguments: the signature
  \<^verbatim>\<open>def haversine(point1, point2)\<close> has two parameters and no default, so any other
  number of arguments is a \<^verbatim>\<open>TypeError\<close> before the body runs.
\<close>

fun haversine_call :: "pyval list \<Rightarrow> error + real" where
  "haversine_call [point1, point2] = haversine point1 point2"
| "haversine_call _ = Inl TypeError"

subsection \<open>The formula as the specification words it\<close>

text \<open>
  Convert both coordinates from degrees to radians; with \<open>dl\<close> the longitude difference
  and \<open>dp\<close> the latitude difference, \<open>a = sin\<^sup>2(dp/2) + cos(p1) cos(p2) sin\<^sup>2(dl/2)\<close> and
  the distance is \<open>2 radius arcsin(sqrt a)\<close>.
\<close>

definition spec_a :: "real \<times> real \<Rightarrow> real \<times> real \<Rightarrow> real" where
  "spec_a p1 p2 =
     (let l1 = fst p1 * pi / 180; p1' = snd p1 * pi / 180;
          l2 = fst p2 * pi / 180; p2' = snd p2 * pi / 180;
          dl = l2 - l1;
          dp = p2' - p1'
      in sin (dp / 2) * sin (dp / 2) + cos p1' * cos p2' * (sin (dl / 2) * sin (dl / 2)))"

definition spec_distance :: "real \<times> real \<Rightarrow> real \<times> real \<Rightarrow> real \<Rightarrow> real" where
  "spec_distance p1 p2 radius = 2 * radius * arcsin (sqrt (spec_a p1 p2))"

section \<open>Properties\<close>

subsection \<open>Shared lemmas\<close>

lemma sin_half_squared: "(sin (x / 2))\<^sup>2 = (1 - cos x) / (2::real)"
  using cos_double_sin [of "x / 2"] by simp

lemma hav_a_cos_sum:
  "(sin ((lat2 - lat1) / 2))\<^sup>2 + cos lat1 * cos lat2 = (1 + cos (lat1 + lat2)) / (2::real)"
  by (simp add: sin_half_squared cos_diff cos_add field_simps)

lemma sin_sq_le_one: "(sin (x::real))\<^sup>2 \<le> 1"
  using abs_sin_le_one [of x] by (simp add: abs_square_le_1)

lemma half_one_plus_nonneg: "- 1 \<le> y \<Longrightarrow> 0 \<le> (1 + y) / (2::real)"
  by simp

lemma half_one_plus_le_one: "y \<le> 1 \<Longrightarrow> (1 + y) / (2::real) \<le> 1"
  by simp

lemma hav_a_nonneg: "0 \<le> hav_a lon1 lat1 lon2 lat2"
proof (cases "0 \<le> cos lat1 * cos lat2")
  case True
  then show ?thesis by (simp add: hav_a_def Let_def)
next
  case False
  define s where "s = (sin ((lon2 - lon1) / 2))\<^sup>2"
  have s1: "s \<le> 1" unfolding s_def by (rule sin_sq_le_one)
  from False have neg: "cos lat1 * cos lat2 \<le> 0" by simp
  have "cos lat1 * cos lat2 * 1 \<le> cos lat1 * cos lat2 * s"
    using s1 neg by (rule mult_left_mono_neg)
  then have "(sin ((lat2 - lat1) / 2))\<^sup>2 + cos lat1 * cos lat2 \<le> hav_a lon1 lat1 lon2 lat2"
    by (simp add: hav_a_def Let_def s_def)
  moreover have "0 \<le> (1 + cos (lat1 + lat2)) / 2"
    by (rule half_one_plus_nonneg [OF cos_ge_minus_one])
  ultimately show ?thesis unfolding hav_a_cos_sum by linarith
qed

lemma hav_a_le_one: "hav_a lon1 lat1 lon2 lat2 \<le> 1"
proof (cases "0 \<le> cos lat1 * cos lat2")
  case True
  define s where "s = (sin ((lon2 - lon1) / 2))\<^sup>2"
  have s1: "s \<le> 1" unfolding s_def by (rule sin_sq_le_one)
  have "cos lat1 * cos lat2 * s \<le> cos lat1 * cos lat2 * 1"
    using s1 True by (rule mult_left_mono)
  then have "hav_a lon1 lat1 lon2 lat2 \<le> (sin ((lat2 - lat1) / 2))\<^sup>2 + cos lat1 * cos lat2"
    by (simp add: hav_a_def Let_def s_def)
  moreover have "(1 + cos (lat1 + lat2)) / 2 \<le> 1"
    by (rule half_one_plus_le_one [OF cos_le_one])
  ultimately show ?thesis unfolding hav_a_cos_sum by linarith
next
  case False
  then have "cos lat1 * cos lat2 * (sin ((lon2 - lon1) / 2))\<^sup>2 \<le> 0"
    by (simp add: mult_nonpos_nonneg)
  then have "hav_a lon1 lat1 lon2 lat2 \<le> (sin ((lat2 - lat1) / 2))\<^sup>2"
    by (simp add: hav_a_def Let_def)
  also have "\<dots> \<le> 1" by (rule sin_sq_le_one)
  finally show ?thesis .
qed

lemma haversine_pair:
  "haversine (Seq [lon1, lat1]) (Seq [lon2, lat2]) =
     Inr (2 * EARTH_RADIUS *
          arcsin (sqrt (hav_a (radians lon1) (radians lat1) (radians lon2) (radians lat2))))"
proof -
  let ?a = "hav_a (radians lon1) (radians lat1) (radians lon2) (radians lat2)"
  have a0: "0 \<le> ?a" by (rule hav_a_nonneg)
  have a1: "?a \<le> 1" by (rule hav_a_le_one)
  have s0: "0 \<le> sqrt ?a" using a0 by simp
  have s1: "sqrt ?a \<le> 1" using a1 by simp
  have dom: "\<not> (sqrt ?a < - 1 \<or> 1 < sqrt ?a)" using s0 s1 by linarith
  have "np_sqrt ?a = Inr (sqrt ?a)" using a0 by (simp add: np_sqrt_def)
  moreover have "np_arcsin (sqrt ?a) = Inr (arcsin (sqrt ?a))"
    unfolding np_arcsin_def using dom by (rule if_not_P)
  ultimately show ?thesis by (simp add: haversine_def)
qed

lemma hav_a_self: "hav_a lon lat lon lat = 0"
  by (simp add: hav_a_def)

lemma sin_half_diff_sq: "(sin ((x - y) / 2))\<^sup>2 = (sin ((y - x) / 2))\<^sup>2" for x y :: real
  by (simp add: sin_half_squared cos_diff mult.commute)

lemma hav_a_sym: "hav_a lon1 lat1 lon2 lat2 = hav_a lon2 lat2 lon1 lat1"
  by (simp add: hav_a_def Let_def sin_half_diff_sq [of lat2 lat1] sin_half_diff_sq [of lon2 lon1]
      mult.commute)

lemma unpack2_Inl: "unpack2 xs = Inl e \<Longrightarrow> e = ValueError"
  by (cases xs rule: unpack2.cases) simp_all

lemma unpack2_map_cases:
  "(\<exists>x y. p = [x, y]) \<or> unpack2 (map radians p) = Inl ValueError"
  by (cases p rule: unpack2.cases) simp_all

lemma haversine_bad1:
  "unpack2 (map radians p1) = Inl ValueError \<Longrightarrow>
     haversine (Seq p1) (Seq p2) = Inl ValueError"
  by (simp add: haversine_def)

lemma haversine_bad2:
  "unpack2 (map radians p2) = Inl ValueError \<Longrightarrow>
     haversine (Seq p1) (Seq p2) = Inl ValueError"
  by (auto simp: haversine_def split: sum.splits dest: unpack2_Inl)

lemma EARTH_RADIUS_pos: "0 < EARTH_RADIUS"
  by (simp add: EARTH_RADIUS_def)

lemma central_angle_bounds:
  "0 \<le> arcsin (sqrt (hav_a lon1 lat1 lon2 lat2)) \<and>
   arcsin (sqrt (hav_a lon1 lat1 lon2 lat2)) \<le> pi / 2"
proof -
  let ?a = "hav_a lon1 lat1 lon2 lat2"
  have s0: "0 \<le> sqrt ?a" using hav_a_nonneg [of lon1 lat1 lon2 lat2] by simp
  have s1: "sqrt ?a \<le> 1" using hav_a_le_one [of lon1 lat1 lon2 lat2] by simp
  have "0 \<le> arcsin (sqrt ?a)" using s0 s1 by (simp add: arcsin_nonneg)
  moreover have "arcsin (sqrt ?a) \<le> pi / 2"
  proof (rule arcsin_ubound)
    show "- 1 \<le> sqrt ?a" using s0 by linarith
    show "sqrt ?a \<le> 1" by (rule s1)
  qed
  ultimately show ?thesis by simp
qed

subsection \<open>Bounds on \<open>pi\<close> from the Taylor polynomial of the sine\<close>

lemma sin_poly7:
  "(\<Sum>m<7. sin_coeff m * x ^ m) = x - x * x * x / 6 + x * x * x * x * x / 120" for x :: real
proof -
  have "(\<Sum>m<Suc (Suc (Suc (Suc (Suc (Suc (Suc 0)))))). sin_coeff m * x ^ m) =
      x - x * x * x / 6 + x * x * x * x * x / 120"
    by (simp add: sin_coeff_Suc cos_coeff_Suc)
  then show ?thesis by (simp add: eval_nat_numeral)
qed

lemma fact_7: "fact 7 = (5040::real)"
  by (simp add: fact_numeral)

lemma seventh_power_bound:
  fixes x :: real
  assumes "0 \<le> x" "x \<le> 11 / 20"
  shows "inverse (fact 7) * \<bar>x\<bar> ^ 7 \<le> 1 / (300000::real)"
proof -
  have "\<bar>x\<bar> ^ 7 \<le> (11 / 20) ^ 7" using assms by (intro power_mono) simp_all
  also have "\<dots> \<le> (5040::real) / 300000" by (simp add: power_divide)
  finally show ?thesis by (simp add: fact_7)
qed

lemma abs_diff_bounds: "\<bar>s - p\<bar> \<le> d \<Longrightarrow> d \<le> e \<Longrightarrow> p - e \<le> s \<and> s \<le> p + e" for s p :: real
  by linarith

lemma sin_taylor7:
  fixes x :: real
  assumes "0 \<le> x" "x \<le> 11 / 20"
  shows "x - x * x * x / 6 + x * x * x * x * x / 120 - 1 / 300000 \<le> sin x \<and>
         sin x \<le> x - x * x * x / 6 + x * x * x * x * x / 120 + 1 / 300000"
proof (rule abs_diff_bounds)
  show "\<bar>sin x - (x - x * x * x / 6 + x * x * x * x * x / 120)\<bar> \<le> inverse (fact 7) * \<bar>x\<bar> ^ 7"
    using Maclaurin_sin_bound [of x 7] by (simp only: sin_poly7)
  show "inverse (fact 7) * \<bar>x\<bar> ^ 7 \<le> 1 / 300000"
    using assms by (rule seventh_power_bound)
qed

lemma sin_below_half: "sin (0.523575::real) < 1 / 2"
proof -
  have "sin (0.523575::real) \<le>
      0.523575 - 0.523575 * 0.523575 * 0.523575 / 6
        + 0.523575 * 0.523575 * 0.523575 * 0.523575 * 0.523575 / 120 + 1 / 300000"
    by (rule sin_taylor7 [THEN conjunct2]) simp_all
  also have "\<dots> < 1 / 2" by simp
  finally show ?thesis .
qed

lemma sin_above_half: "1 / 2 < sin (0.52362::real)"
proof -
  have "(1::real) / 2 < 0.52362 - 0.52362 * 0.52362 * 0.52362 / 6
        + 0.52362 * 0.52362 * 0.52362 * 0.52362 * 0.52362 / 120 - 1 / 300000"
    by simp
  also have "\<dots> \<le> sin (0.52362::real)"
    by (rule sin_taylor7 [THEN conjunct1]) simp_all
  finally show ?thesis .
qed

lemma pi_lower: "3.14145 < pi"
proof -
  have half: "(1::real) \<le> pi / 2" using pi_ge_two by simp
  have "sin (0.523575::real) < sin (pi / 6)" using sin_below_half by (simp add: sin_30)
  moreover have "- (pi / 2) \<le> 0.523575" "(0.523575::real) \<le> pi / 2"
    "- (pi / 2) \<le> pi / 6" "pi / 6 \<le> pi / 2"
    using half by simp_all
  ultimately have "0.523575 < pi / 6" by (simp add: sin_mono_less_eq)
  then show ?thesis by simp
qed

lemma pi_upper: "pi < 3.14172"
proof -
  have half: "(1::real) \<le> pi / 2" using pi_ge_two by simp
  have "sin (pi / 6) < sin (0.52362::real)" using sin_above_half by (simp add: sin_30)
  moreover have "- (pi / 2) \<le> 0.52362" "(0.52362::real) \<le> pi / 2"
    "- (pi / 2) \<le> pi / 6" "pi / 6 \<le> pi / 2"
    using half by simp_all
  ultimately have "pi / 6 < 0.52362" by (simp add: sin_mono_less_eq)
  then show ?thesis by simp
qed

subsection \<open>Arcs along a meridian and along the equator\<close>

lemma arcsin_sqrt_sin_sq:
  assumes "0 \<le> x" "x \<le> pi / 2"
  shows "arcsin (sqrt ((sin x)\<^sup>2)) = x"
proof -
  have "0 \<le> sin x" using assms by (intro sin_ge_zero) simp_all
  then have "sqrt ((sin x)\<^sup>2) = sin x" by simp
  moreover have "arcsin (sin x) = x" using assms by (intro arcsin_sin) simp_all
  ultimately show ?thesis by simp
qed

lemma hav_a_meridian: "hav_a lon lat1 lon lat2 = (sin ((lat2 - lat1) / 2))\<^sup>2"
  by (simp add: hav_a_def)

lemma hav_a_equator: "hav_a lon1 0 lon2 0 = (sin ((lon2 - lon1) / 2))\<^sup>2"
  by (simp add: hav_a_def)

lemma radians_0: "radians 0 = 0"
  by (simp add: radians_def)

lemma haversine_lat_arc:
  assumes "0 \<le> d" "d \<le> 180"
  shows "haversine (Seq [0, 0]) (Seq [0, d]) = Inr (EARTH_RADIUS * (d * (pi / 180)))"
proof -
  have "0 \<le> radians d / 2" using assms by (simp add: radians_def)
  moreover have "radians d / 2 \<le> pi / 2" using assms by (simp add: radians_def)
  ultimately have "arcsin (sqrt ((sin (radians d / 2))\<^sup>2)) = radians d / 2"
    by (rule arcsin_sqrt_sin_sq)
  then show ?thesis
    by (simp add: haversine_pair radians_0 hav_a_meridian) (simp add: radians_def)
qed

lemma haversine_lon_arc:
  assumes "0 \<le> d" "d \<le> 180"
  shows "haversine (Seq [0, 0]) (Seq [d, 0]) = Inr (EARTH_RADIUS * (d * (pi / 180)))"
proof -
  have "0 \<le> radians d / 2" using assms by (simp add: radians_def)
  moreover have "radians d / 2 \<le> pi / 2" using assms by (simp add: radians_def)
  ultimately have "arcsin (sqrt ((sin (radians d / 2))\<^sup>2)) = radians d / 2"
    by (rule arcsin_sqrt_sin_sq)
  then show ?thesis
    by (simp add: haversine_pair radians_0 hav_a_equator) (simp add: radians_def)
qed

lemma hav_a_antipodal: "hav_a lon lat (lon + pi) (- lat) = 1"
proof -
  have "(sin ((- lat - lat) / 2))\<^sup>2 = (sin lat)\<^sup>2"
    by (simp add: sin_half_squared cos_double_sin [of lat] mult.commute)
  then show ?thesis by (simp add: hav_a_def flip: power2_eq_square)
qed

lemma radians_add: "radians (x + y) = radians x + radians y"
  by (simp add: radians_def algebra_simps)

lemma radians_minus: "radians (- x) = - radians x"
  by (simp add: radians_def)

lemma radians_180: "radians 180 = pi"
  by (simp add: radians_def)

subsection \<open>The formula\<close>

text \<open>
  C1. For every pair of points \<open>(lon1, lat1)\<close>, \<open>(lon2, lat2)\<close> in degrees the function returns
  a number, and that number is the specification's \<open>2 radius arcsin(sqrt a)\<close> with
  \<open>a = sin\<^sup>2((lat2 - lat1)/2) + cos(lat1) cos(lat2) sin\<^sup>2((lon2 - lon1)/2)\<close> on the coordinates
  converted to radians, the radius being the constant \<open>EARTH_RADIUS\<close> of the code.
\<close>

theorem haversine_formula:
  "haversine (Seq [lon1, lat1]) (Seq [lon2, lat2]) =
     Inr (spec_distance (lon1, lat1) (lon2, lat2) EARTH_RADIUS)"
  by (simp add: haversine_pair spec_distance_def hav_a_def spec_a_def radians_def Let_def
      power2_eq_square)

subsection \<open>Metric properties\<close>

text \<open>
  C4. The distance from a point to itself is exactly 0.
\<close>

theorem haversine_self: "haversine (Seq [lon, lat]) (Seq [lon, lat]) = Inr 0"
  by (simp add: haversine_pair hav_a_self)

text \<open>
  C5. The distance is symmetric. This holds for all sequences of numbers as arguments:
  when either one does not unpack into two numbers, both orders end in the same
  \<open>ValueError\<close>.
\<close>

theorem haversine_symmetric: "haversine (Seq p1) (Seq p2) = haversine (Seq p2) (Seq p1)"
proof -
  consider (bad1) "unpack2 (map radians p1) = Inl ValueError"
    | (bad2) "unpack2 (map radians p2) = Inl ValueError"
    | (ok) x1 y1 x2 y2 where "p1 = [x1, y1]" "p2 = [x2, y2]"
    using unpack2_map_cases [of p1] unpack2_map_cases [of p2] by blast
  then show ?thesis
  proof cases
    case bad1
    then show ?thesis by (simp add: haversine_bad1 haversine_bad2)
  next
    case bad2
    then show ?thesis by (simp add: haversine_bad1 haversine_bad2)
  next
    case ok
    then show ?thesis
      by (simp add: haversine_pair hav_a_sym [of "radians x1" "radians y1"])
  qed
qed

text \<open>
  C7. Two antipodal points, \<open>(lon, lat)\<close> and \<open>(lon + 180, - lat)\<close>, for instance \<open>(0, 0)\<close>
  and \<open>(180, 0)\<close>, are at distance \<open>pi\<close> times the radius, and no pair of points is
  further apart.
\<close>

theorem haversine_antipodal_max:
  "haversine (Seq [lon, lat]) (Seq [lon + 180, - lat]) = Inr (pi * EARTH_RADIUS) \<and>
   haversine (Seq [0, 0]) (Seq [180, 0]) = Inr (pi * EARTH_RADIUS) \<and>
   (\<exists>d. haversine (Seq [lon1, lat1]) (Seq [lon2, lat2]) = Inr d \<and> d \<le> pi * EARTH_RADIUS)"
proof (intro conjI)
  show "haversine (Seq [lon, lat]) (Seq [lon + 180, - lat]) = Inr (pi * EARTH_RADIUS)"
    by (simp add: haversine_pair radians_add radians_minus radians_180 hav_a_antipodal)
  show "haversine (Seq [0, 0]) (Seq [180, 0]) = Inr (pi * EARTH_RADIUS)"
    using hav_a_antipodal [of 0 0]
    by (simp add: haversine_pair radians_0 radians_180)
  have "arcsin (sqrt (hav_a (radians lon1) (radians lat1) (radians lon2) (radians lat2))) \<le> pi / 2"
    using central_angle_bounds by blast
  then have "2 * EARTH_RADIUS *
      arcsin (sqrt (hav_a (radians lon1) (radians lat1) (radians lon2) (radians lat2)))
      \<le> 2 * EARTH_RADIUS * (pi / 2)"
    using EARTH_RADIUS_pos by (intro mult_left_mono) simp_all
  then show "\<exists>d. haversine (Seq [lon1, lat1]) (Seq [lon2, lat2]) = Inr d \<and> d \<le> pi * EARTH_RADIUS"
    by (simp add: haversine_pair mult.commute)
qed

subsection \<open>The radius\<close>

text \<open>
  C2, as the specification states it, gives the operation an optional radius argument
  that scales the result. The function of the notebook has two parameters: a third
  argument is a \<open>TypeError\<close>, here for the unit sphere.
\<close>

theorem haversine_radius_argument_counterexample:
  "haversine_call [Seq [0, 0], Seq [0, 1], Num 1] = Inl TypeError"
  by simp

text \<open>
  C2, amended. The operation takes exactly two points and no radius: the radius is the
  constant \<open>EARTH_RADIUS = 6371.009\<close> (the mean radius of the Earth in kilometres), so the
  result is \<open>6371.009\<close> times the central angle \<open>2 arcsin(sqrt a)\<close>, a length in
  kilometres, and every call with a third positional argument is rejected.
\<close>

theorem haversine_radius_fixed:
  "haversine_call [Seq [lon1, lat1], Seq [lon2, lat2]] =
     Inr (6371.009 * (2 * arcsin (sqrt
       (hav_a (radians lon1) (radians lat1) (radians lon2) (radians lat2))))) \<and>
   haversine_call [p1, p2, r] = Inl TypeError"
  by (simp add: haversine_pair EARTH_RADIUS_def)

subsection \<open>Concrete distances\<close>

text \<open>
  C8. One degree of latitude, from \<open>(0, 0)\<close> to \<open>(0, 1)\<close>, and one degree of longitude
  on the equator, from \<open>(0, 0)\<close> to \<open>(1, 0)\<close>, both measure \<open>radius * (pi / 180)\<close>, which
  with the radius of the code lies between 111.19 and 111.20 km.
\<close>

theorem haversine_one_degree:
  "haversine (Seq [0, 0]) (Seq [0, 1]) = Inr (EARTH_RADIUS * (pi / 180)) \<and>
   haversine (Seq [0, 0]) (Seq [1, 0]) = Inr (EARTH_RADIUS * (pi / 180)) \<and>
   111.19 < EARTH_RADIUS * (pi / 180) \<and> EARTH_RADIUS * (pi / 180) < 111.20"
proof (intro conjI)
  show "haversine (Seq [0, 0]) (Seq [0, 1]) = Inr (EARTH_RADIUS * (pi / 180))"
    using haversine_lat_arc [of 1] by simp
  show "haversine (Seq [0, 0]) (Seq [1, 0]) = Inr (EARTH_RADIUS * (pi / 180))"
    using haversine_lon_arc [of 1] by simp
  show "111.19 < EARTH_RADIUS * (pi / 180)"
    using pi_lower by (simp add: EARTH_RADIUS_def)
  show "EARTH_RADIUS * (pi / 180) < 111.20"
    using pi_upper by (simp add: EARTH_RADIUS_def)
qed

text \<open>
  C9. The distance from \<open>(0, 0)\<close> to \<open>(0, 10)\<close> is strictly greater than the distance from
  \<open>(0, 0)\<close> to \<open>(0, 1)\<close>.
\<close>

theorem haversine_ten_exceeds_one:
  "\<exists>d1 d10. haversine (Seq [0, 0]) (Seq [0, 1]) = Inr d1 \<and>
     haversine (Seq [0, 0]) (Seq [0, 10]) = Inr d10 \<and> d1 < d10"
proof -
  have "haversine (Seq [0, 0]) (Seq [0, 1]) = Inr (EARTH_RADIUS * (1 * (pi / 180)))"
    by (rule haversine_lat_arc) simp_all
  moreover have "haversine (Seq [0, 0]) (Seq [0, 10]) = Inr (EARTH_RADIUS * (10 * (pi / 180)))"
    by (rule haversine_lat_arc) simp_all
  moreover have "EARTH_RADIUS * (1 * (pi / 180)) < EARTH_RADIUS * (10 * (pi / 180))"
    using EARTH_RADIUS_pos by simp
  ultimately show ?thesis by blast
qed

end
